theory Spec2Isabelle
  imports Complex_Main "HOL-Library.AList"
begin

section \<open>GoldMIND API server: data model\<close>

text \<open>
  The embedding follows \<^verbatim>\<open>goldmind_api_server.py\<close>. Python floats are modelled as
  exact rationals (\<^typ>\<open>rat\<close>): comparisons, \<^verbatim>\<open>min\<close>/\<^verbatim>\<open>max\<close> and the decimal
  constants of the source are exact, the rounding error of binary floating point is not
  represented. The one place where that error decides a result by a whole unit,
  \<^verbatim>\<open>round\<close> at an exact decimal tie, is an input of the model. Python's unbounded
  integers are \<^typ>\<open>int\<close>. The string-valued dictionary
  entries of the source (trend, action, risk tolerance, ...) stay strings. A dictionary
  whose keys are fixed by the code that builds it is a record.
\<close>

subsection \<open>Exceptions and name resolution\<close>

datatype py_error = NameError string | ZeroDivisionError | OverflowError

text \<open>
  \<^verbatim>\<open>str(e)\<close>: \<^verbatim>\<open>name 'x' is not defined\<close>, \<^verbatim>\<open>division by zero\<close> and
  \<^verbatim>\<open>integer division result too large for a float\<close>.
\<close>

fun str_of_error :: "py_error \<Rightarrow> string" where
  "str_of_error (NameError n) = ''name '' @ [CHR 0x27] @ n @ [CHR 0x27] @ '' is not defined''"
| "str_of_error ZeroDivisionError = ''division by zero''"
| "str_of_error OverflowError = ''integer division result too large for a float''"

text \<open>
  The names bound in the module's global namespace, in the order the module binds them:
  the imports of lines 7 to 14, \<^verbatim>\<open>logger\<close>, the class, \<^verbatim>\<open>app\<close>, \<^verbatim>\<open>goldmind\<close>,
  \<^verbatim>\<open>DASHBOARD_HTML\<close> and the route functions. The statement \<^verbatim>\<open>import random\<close> of
  line 107 is inside \<^verbatim>\<open>get_market_analysis\<close> and binds a local variable of that
  function only.
\<close>

definition module_globals :: "string list" where
  "module_globals =
     [''Flask'', ''jsonify'', ''request'', ''render_template_string'',
      ''os'', ''sys'', ''json'', ''logging'', ''datetime'', ''timedelta'',
      ''threading'', ''time'', ''logger'', ''GoldMINDAPI'', ''app'', ''goldmind'',
      ''DASHBOARD_HTML'', ''dashboard'', ''health'', ''get_recommendation'',
      ''metrics'', ''api_info'']"

text \<open>The builtins the methods refer to; \<^verbatim>\<open>random\<close> is not a builtin.\<close>

definition builtins_used :: "string list" where
  "builtins_used = [''round'', ''min'', ''max'', ''len'', ''int'', ''str'', ''Exception'']"

text \<open>
  A method body that reads a name which is not one of its locals looks it up in the module
  globals, then in the builtins, and raises \<^verbatim>\<open>NameError\<close> when both lack it.
\<close>

definition load_global :: "string \<Rightarrow> py_error + unit" where
  "load_global name =
     (if name \<in> set module_globals \<or> name \<in> set builtins_used
      then Inr () else Inl (NameError name))"

text \<open>
  \<^verbatim>\<open>a / b\<close> on two integers raises when the divisor is zero, and when the quotient
  is too large for a float: from \<open>2\<^sup>1\<^sup>0\<^sup>2\<^sup>4 - 2\<^sup>9\<^sup>7\<^sup>0\<close> on it would round beyond the
  largest float.
\<close>

definition float_overflow_bound :: rat where
  "float_overflow_bound = 2 ^ 1024 - 2 ^ 970"

definition py_truediv :: "int \<Rightarrow> int \<Rightarrow> py_error + rat" where
  "py_truediv a b =
     (if b = 0 then Inl ZeroDivisionError
      else if float_overflow_bound \<le> \<bar>of_int a / of_int b\<bar> then Inl OverflowError
      else Inr (of_int a / of_int b))"

subsection \<open>Rounding\<close>

text \<open>
  \<^verbatim>\<open>round(x, n)\<close>: the nearest multiple of \<open>10\<^sup>-\<^sup>n\<close>. Python rounds the binary
  float that stands for \<open>x\<close>; when the rational \<open>x\<close> is an exact decimal tie (as
  2100.105 for two decimals), that float lies on one side of the tie or on it, and the
  rational value does not say where the result goes: 2000.10 \<times> 1.05 rounds up to 2100.11,
  2000.50 \<times> 0.95 rounds down to 1900.47. So the direction at a tie is an input: \<open>up y\<close>
  tells whether the scaled value \<open>y\<close>, halfway between two integers, goes to the upper
  one.
\<close>

type_synonym float_ties = "rat \<Rightarrow> bool"

definition round_nearest :: "float_ties \<Rightarrow> rat \<Rightarrow> int" where
  "round_nearest up y =
     (let f = \<lfloor>y\<rfloor>; d = y - of_int f
      in if d < 1 / 2 then f
         else if 1 / 2 < d then f + 1
         else if up y then f + 1 else f)"

definition py_round :: "float_ties \<Rightarrow> rat \<Rightarrow> nat \<Rightarrow> rat" where
  "py_round up x n = of_int (round_nearest up (x * 10 ^ n)) / 10 ^ n"

text \<open>Two tie rules, for evaluating the model at concrete inputs.\<close>

definition ties_up :: float_ties where
  "ties_up y = True"

definition ties_down :: float_ties where
  "ties_down y = False"

subsection \<open>Market conditions and user profile\<close>

record market_conditions =
  current_price :: rat
  change_24h :: rat
  change_percent_24h :: rat
  volume :: int
  rsi :: rat
  macd :: rat
  bollinger_position :: string
  trend :: string
  volatility :: rat

record user_profile =
  up_user_id :: int
  risk_tolerance :: string
  experience_level :: string
  portfolio_size :: string
  trading_frequency :: string
  preferred_strategy :: string

section \<open>Confidence and multipliers\<close>

definition calculate_confidence :: "user_profile \<Rightarrow> market_conditions \<Rightarrow> rat" where
  "calculate_confidence user_profile market_conditions =
     (let base0 = 5 / 10;
          base1 = (if trend market_conditions \<noteq> ''sideways'' then base0 + 2 / 10 else base0);
          base2 = (if 30 \<le> rsi market_conditions \<and> rsi market_conditions \<le> 70
                   then base1 + 1 / 10 else base1);
          base3 = (if experience_level user_profile = ''expert'' then base2 + 1 / 10
                   else if experience_level user_profile = ''beginner'' then base2 - 1 / 10
                   else base2)
      in min (max base3 (1 / 10)) (95 / 100))"

text \<open>\<^verbatim>\<open>multipliers.get(action, 0.02)\<close> on a three-entry dictionary.\<close>

definition target_multipliers :: "(string \<times> rat) list" where
  "target_multipliers = [(''BUY'', 5 / 100), (''SELL'', - (3 / 100)), (''HOLD'', 2 / 100)]"

definition stop_loss_multipliers :: "(string \<times> rat) list" where
  "stop_loss_multipliers = [(''BUY'', 3 / 100), (''SELL'', 5 / 100), (''HOLD'', 2 / 100)]"

definition dict_get :: "(string \<times> 'v) list \<Rightarrow> string \<Rightarrow> 'v \<Rightarrow> 'v" where
  "dict_get d k dflt = (case map_of d k of Some v \<Rightarrow> v | None \<Rightarrow> dflt)"

definition get_target_multiplier :: "string \<Rightarrow> rat" where
  "get_target_multiplier action = dict_get target_multipliers action (2 / 100)"

definition get_stop_loss_multiplier :: "string \<Rightarrow> rat" where
  "get_stop_loss_multiplier action = dict_get stop_loss_multipliers action (2 / 100)"

text \<open>The two price expressions of lines 70 and 71.\<close>

definition target_price_of :: "float_ties \<Rightarrow> rat \<Rightarrow> string \<Rightarrow> rat" where
  "target_price_of up price action =
     py_round up (price * (1 + get_target_multiplier action)) 2"

definition stop_loss_of :: "float_ties \<Rightarrow> rat \<Rightarrow> string \<Rightarrow> rat" where
  "stop_loss_of up price action =
     py_round up (price * (1 - get_stop_loss_multiplier action)) 2"

section \<open>The simulated market and user\<close>

text \<open>
  The random source is an input of the model: one record holds the raw draws that a call
  consumes, a fraction for each \<^verbatim>\<open>random()\<close> behind \<^verbatim>\<open>uniform\<close> and a natural
  number for each index draw behind \<^verbatim>\<open>randint\<close> and \<^verbatim>\<open>choice\<close>.
\<close>

record rand_draws =
  d_price :: rat
  d_volume :: nat
  d_rsi :: rat
  d_macd :: rat
  d_bollinger :: nat
  d_trend :: nat
  d_portfolio :: nat
  d_frequency :: nat
  d_strategy :: nat
  d_action :: nat

definition random_uniform :: "rat \<Rightarrow> rat \<Rightarrow> rat \<Rightarrow> rat" where
  "random_uniform a b r = a + (b - a) * r"

definition random_randint :: "int \<Rightarrow> int \<Rightarrow> nat \<Rightarrow> int" where
  "random_randint a b n = a + int (n mod nat (b - a + 1))"

definition random_choice :: "'a list \<Rightarrow> nat \<Rightarrow> 'a" where
  "random_choice xs n = xs ! (n mod length xs)"

text \<open>\<^verbatim>\<open>get_market_analysis\<close> imports \<^verbatim>\<open>random\<close> itself (line 107) and cannot raise.\<close>

definition get_market_analysis :: "float_ties \<Rightarrow> rand_draws \<Rightarrow> market_conditions" where
  "get_market_analysis up d =
     (let base_price = 2000;
          volatility_v = 2 / 100;
          price_change = random_uniform (- volatility_v) volatility_v (d_price d);
          current_price_v = base_price * (1 + price_change)
      in \<lparr> current_price = py_round up current_price_v 2,
           change_24h = py_round up (current_price_v - base_price) 2,
           change_percent_24h = py_round up (price_change * 100) 2,
           volume = random_randint 1000000 3000000 (d_volume d),
           rsi = py_round up (random_uniform 30 70 (d_rsi d)) 1,
           macd = py_round up (random_uniform (- 5) 15 (d_macd d)) 2,
           bollinger_position = random_choice [''upper'', ''middle'', ''lower''] (d_bollinger d),
           trend = random_choice [''bullish'', ''bearish'', ''sideways''] (d_trend d),
           volatility = py_round up (volatility_v * 100) 2 \<rparr>)"

text \<open>
  \<^verbatim>\<open>get_user_profile\<close> evaluates the dictionary display entry by entry: the two indexed
  reads first, then the first read of the global name \<^verbatim>\<open>random\<close> (line 133).
\<close>

definition get_user_profile :: "rand_draws \<Rightarrow> int \<Rightarrow> py_error + user_profile" where
  "get_user_profile d user_id =
     (let risk_levels = [''conservative'', ''moderate'', ''aggressive''];
          experience_levels = [''beginner'', ''intermediate'', ''expert''];
          risk = risk_levels ! nat (user_id mod 3);
          experience = experience_levels ! nat ((user_id div 3) mod 3)
      in case load_global ''random'' of
           Inl e \<Rightarrow> Inl e
         | Inr _ \<Rightarrow>
             Inr \<lparr> up_user_id = user_id,
                   risk_tolerance = risk,
                   experience_level = experience,
                   portfolio_size = random_choice [''small'', ''medium'', ''large''] (d_portfolio d),
                   trading_frequency = random_choice [''daily'', ''weekly'', ''monthly''] (d_frequency d),
                   preferred_strategy = random_choice [''swing'', ''scalp'', ''position''] (d_strategy d) \<rparr>)"

definition determine_action ::
  "rand_draws \<Rightarrow> user_profile \<Rightarrow> market_conditions \<Rightarrow> py_error + string" where
  "determine_action d user_profile market_conditions =
     (if rsi market_conditions < 30 \<and> trend market_conditions = ''bullish'' then Inr ''BUY''
      else if rsi market_conditions > 70 \<and> trend market_conditions = ''bearish'' then Inr ''SELL''
      else if risk_tolerance user_profile = ''conservative'' then Inr ''HOLD''
      else if trend market_conditions = ''sideways'' then Inr ''HOLD''
      else (case load_global ''random'' of
              Inl e \<Rightarrow> Inl e
            | Inr _ \<Rightarrow> Inr (random_choice [''BUY'', ''SELL'', ''HOLD''] (d_action d))))"

text \<open>
  The reasoning templates are kept symbolic: one constructor for each template, holding the
  values the f-string interpolates (trend, RSI, risk tolerance).
\<close>

datatype reasoning =
    BuyReasoning string rat string
  | SellReasoning rat
  | HoldReasoning string
  | DefaultReasoning

definition generate_reasoning :: "string \<Rightarrow> market_conditions \<Rightarrow> user_profile \<Rightarrow> reasoning" where
  "generate_reasoning action market_conditions user_profile =
     dict_get
       [(''BUY'', BuyReasoning (trend market_conditions) (rsi market_conditions)
                    (risk_tolerance user_profile)),
        (''SELL'', SellReasoning (rsi market_conditions)),
        (''HOLD'', HoldReasoning (trend market_conditions))]
       action DefaultReasoning"

section \<open>The API object\<close>

text \<open>
  A \<^verbatim>\<open>datetime\<close> is a number of microseconds on the wall clock; its
  \<^verbatim>\<open>isoformat()\<close> string is a rendering of that number, so a payload keeps the
  number. \<^verbatim>\<open>timedelta(minutes=5)\<close> is 300000000 microseconds.
\<close>

type_synonym datetime = int

definition five_minutes :: int where
  "five_minutes = 300000000"

record recommendation =
  r_user_id :: int
  r_action :: string
  r_confidence :: rat
  r_target_price :: rat
  r_stop_loss :: rat
  r_reasoning :: reasoning
  r_market_data :: market_conditions
  r_user_profile :: user_profile
  r_timestamp :: datetime
  r_expires_at :: datetime
  r_system_status :: string
  r_api_version :: string

record error_payload =
  e_error :: string
  e_user_id :: int
  e_timestamp :: datetime
  e_system_status :: string

datatype payload = Recommendation recommendation | ErrorPayload error_payload

record cache_entry =
  data :: recommendation
  cache_time :: rat

record metrics_dict =
  requests_count :: int
  successful_recommendations :: int
  errors :: int
  uptime_start :: datetime

text \<open>
  The attributes that \<^verbatim>\<open>__init__\<close> assigns once and no method assigns again are
  constants: \<^verbatim>\<open>config\<close> (of which only \<^verbatim>\<open>api_version\<close> is read) and
  \<^verbatim>\<open>cache_timeout\<close>. The state holds the two attributes that change. The cache
  dictionary is an association list in insertion order, its keys distinct.
\<close>

definition api_version :: string where
  "api_version = ''1.0.0''"

definition cache_timeout :: rat where
  "cache_timeout = 300"

record api_state =
  recommendation_cache :: "(string \<times> cache_entry) list"
  system_metrics :: metrics_dict

text \<open>\<^verbatim>\<open>__init__\<close>, at wall-clock time \<open>t\<close>.\<close>

definition init_state :: "datetime \<Rightarrow> api_state" where
  "init_state t =
     \<lparr> recommendation_cache = [],
       system_metrics =
         \<lparr> requests_count = 0, successful_recommendations = 0, errors = 0, uptime_start = t \<rparr> \<rparr>"

text \<open>The decimal rendering of an integer in an f-string.\<close>

fun str_nat :: "nat \<Rightarrow> string" where
  "str_nat n =
     (if n < 10 then [char_of (48 + n)]
      else str_nat (n div 10) @ [char_of (48 + n mod 10)])"

declare str_nat.simps [simp del]

definition str_int :: "int \<Rightarrow> string" where
  "str_int i = (if i < 0 then ''-'' @ str_nat (nat (- i)) else str_nat (nat i))"

definition cache_key_of :: "int \<Rightarrow> string" where
  "cache_key_of user_id = ''user_'' @ str_int user_id"

text \<open>
  What one call of \<^verbatim>\<open>generate_recommendation\<close> reads from outside: the value of
  \<^verbatim>\<open>time.time()\<close>, the first and the second reading of \<^verbatim>\<open>datetime.now()\<close> that the
  call makes, the random draws, and the direction of the call's roundings at ties.
\<close>

record call_env =
  time_time :: rat
  now_first :: datetime
  now_second :: datetime
  draws :: rand_draws
  ties :: float_ties

definition record_request :: "api_state \<Rightarrow> api_state" where
  "record_request s =
     s\<lparr> system_metrics :=
          (system_metrics s)\<lparr> requests_count := requests_count (system_metrics s) + 1 \<rparr> \<rparr>"

definition record_success :: "api_state \<Rightarrow> api_state" where
  "record_success s =
     s\<lparr> system_metrics :=
          (system_metrics s)\<lparr> successful_recommendations :=
             successful_recommendations (system_metrics s) + 1 \<rparr> \<rparr>"

definition record_error :: "api_state \<Rightarrow> api_state" where
  "record_error s =
     s\<lparr> system_metrics := (system_metrics s)\<lparr> errors := errors (system_metrics s) + 1 \<rparr> \<rparr>"

text \<open>Lines 52 to 56: the entry is used when it is present and younger than the timeout.\<close>

definition cache_hit :: "api_state \<Rightarrow> string \<Rightarrow> rat \<Rightarrow> recommendation option" where
  "cache_hit s cache_key current_time =
     (case map_of (recommendation_cache s) cache_key of
        None \<Rightarrow> None
      | Some cached_rec \<Rightarrow>
          if current_time - cache_time cached_rec < cache_timeout
          then Some (data cached_rec) else None)"

text \<open>Lines 58 to 89: a new recommendation, cached and counted.\<close>

definition generate_new ::
  "api_state \<Rightarrow> call_env \<Rightarrow> int \<Rightarrow> string \<Rightarrow> rat \<Rightarrow> api_state \<times> (py_error + payload)" where
  "generate_new s env user_id cache_key current_time =
     (let market_conditions = get_market_analysis (ties env) (draws env)
      in case get_user_profile (draws env) user_id of
           Inl e \<Rightarrow> (s, Inl e)
         | Inr user_profile \<Rightarrow>
             (case determine_action (draws env) user_profile market_conditions of
                Inl e \<Rightarrow> (s, Inl e)
              | Inr action \<Rightarrow>
                  (let confidence = calculate_confidence user_profile market_conditions;
                       rec = \<lparr> r_user_id = user_id,
                               r_action = action,
                               r_confidence = py_round (ties env) confidence 3,
                               r_target_price =
                                 target_price_of (ties env)
                                   (current_price market_conditions) action,
                               r_stop_loss =
                                 stop_loss_of (ties env)
                                   (current_price market_conditions) action,
                               r_reasoning =
                                 generate_reasoning action market_conditions user_profile,
                               r_market_data = market_conditions,
                               r_user_profile = user_profile,
                               r_timestamp = now_first env,
                               r_expires_at = now_second env + five_minutes,
                               r_system_status = ''operational'',
                               r_api_version = api_version \<rparr>;
                       s2 = s\<lparr> recommendation_cache :=
                                AList.update cache_key
                                  \<lparr> data = rec, cache_time = current_time \<rparr>
                                  (recommendation_cache s) \<rparr>
                   in (record_success s2, Inr (Recommendation rec)))))"

text \<open>The body of the \<^verbatim>\<open>try\<close> block; the state it returns is the state at the raise.\<close>

definition try_body :: "api_state \<Rightarrow> call_env \<Rightarrow> int \<Rightarrow> api_state \<times> (py_error + payload)" where
  "try_body s env user_id =
     (let s1 = record_request s;
          cache_key = cache_key_of user_id;
          current_time = time_time env
      in case cache_hit s1 cache_key current_time of
           Some cached \<Rightarrow> (s1, Inr (Recommendation cached))
         | None \<Rightarrow> generate_new s1 env user_id cache_key current_time)"

text \<open>
  \<^verbatim>\<open>generate_recommendation\<close>: the \<^verbatim>\<open>try\<close> block and its \<^verbatim>\<open>except Exception\<close>
  handler. No \<^verbatim>\<open>datetime.now()\<close> precedes a raise in the body, so the handler's
  timestamp is the call's first reading.
\<close>

definition generate_recommendation ::
  "api_state \<Rightarrow> call_env \<Rightarrow> int \<Rightarrow> api_state \<times> (py_error + payload)" where
  "generate_recommendation s env user_id =
     (case try_body s env user_id of
        (s', Inr result) \<Rightarrow> (s', Inr result)
      | (s', Inl e) \<Rightarrow>
          (record_error s',
           Inr (ErrorPayload \<lparr> e_error = str_of_error e,
                               e_user_id = user_id,
                               e_timestamp = now_first env,
                               e_system_status = ''error'' \<rparr>)))"

section \<open>Health and metrics\<close>

text \<open>\<^verbatim>\<open>int(x)\<close> on a number truncates toward zero.\<close>

definition py_int :: "rat \<Rightarrow> int" where
  "py_int x = (if 0 \<le> x then \<lfloor>x\<rfloor> else \<lceil>x\<rceil>)"

record health_metrics =
  total_requests :: int
  hm_successful_recommendations :: int
  error_count :: int
  success_rate :: rat
  cache_size :: nat

text \<open>
  The health dictionary without \<^verbatim>\<open>uptime_formatted\<close> (a rendering of the uptime) and
  without the constant \<^verbatim>\<open>components\<close> and \<^verbatim>\<open>configuration\<close> entries.
\<close>

record health_dict =
  h_status :: string
  h_timestamp :: datetime
  h_version :: string
  h_uptime_seconds :: int
  h_metrics :: health_metrics

text \<open>
  \<^verbatim>\<open>health_check\<close> reads the clock twice (lines 201 and 205) and divides once
  (line 214).
\<close>

definition health_check ::
  "float_ties \<Rightarrow> api_state \<Rightarrow> datetime \<Rightarrow> datetime \<Rightarrow> py_error + health_dict" where
  "health_check up s now1 now2 =
     (let uptime = now1 - uptime_start (system_metrics s)
      in case py_truediv (successful_recommendations (system_metrics s))
                (max (requests_count (system_metrics s)) 1) of
           Inl e \<Rightarrow> Inl e
         | Inr q \<Rightarrow>
             Inr \<lparr> h_status = ''healthy'',
                   h_timestamp = now2,
                   h_version = api_version,
                   h_uptime_seconds = py_int (of_int uptime / 1000000),
                   h_metrics =
                     \<lparr> total_requests = requests_count (system_metrics s),
                       hm_successful_recommendations =
                         successful_recommendations (system_metrics s),
                       error_count = errors (system_metrics s),
                       success_rate = py_round up (q * 100) 2,
                       cache_size = length (recommendation_cache s) \<rparr> \<rparr>)"

record cache_status =
  cs_size :: nat
  cs_timeout :: rat

record metrics_response =
  m_timestamp :: datetime
  m_metrics :: metrics_dict
  m_cache_status :: cache_status

definition get_system_metrics :: "api_state \<Rightarrow> datetime \<Rightarrow> metrics_response" where
  "get_system_metrics s now1 =
     \<lparr> m_timestamp = now1,
       m_metrics = system_metrics s,
       m_cache_status = \<lparr> cs_size = length (recommendation_cache s), cs_timeout = cache_timeout \<rparr> \<rparr>"

section \<open>The HTTP routes\<close>

text \<open>
  A response is a JSON body and a status code; \<^verbatim>\<open>jsonify(x)\<close> alone answers with
  status 200. The dashboard page and the API descriptor are constant bodies.
\<close>

datatype json_body =
    PayloadBody payload
  | ErrorOnlyBody string
  | HealthBody health_dict
  | MetricsBody metrics_response
  | StaticBody

type_synonym response = "json_body \<times> nat"

text \<open>The route of lines 397 to 405, with its own \<^verbatim>\<open>try\<close>/\<^verbatim>\<open>except\<close>.\<close>

definition get_recommendation :: "api_state \<Rightarrow> call_env \<Rightarrow> int \<Rightarrow> api_state \<times> response" where
  "get_recommendation s env user_id =
     (case generate_recommendation s env user_id of
        (s', Inr rec) \<Rightarrow> (s', (PayloadBody rec, 200))
      | (s', Inl e) \<Rightarrow> (s', (ErrorOnlyBody (str_of_error e), 500)))"

text \<open>
  A request to the server. Flask's \<^verbatim>\<open>int\<close> converter accepts digit strings only, so
  the route's user id is a natural number. An exception that leaves a view function is
  answered by the framework with status 500.
\<close>

datatype request =
    GetDashboard
  | GetHealth float_ties datetime datetime
  | GetRecommendation call_env nat
  | GetMetrics datetime
  | GetApiInfo

fun handle :: "api_state \<Rightarrow> request \<Rightarrow> api_state \<times> response" where
  "handle s GetDashboard = (s, (StaticBody, 200))"
| "handle s (GetHealth up now1 now2) =
     (case health_check up s now1 now2 of
        Inr h \<Rightarrow> (s, (HealthBody h, 200))
      | Inl e \<Rightarrow> (s, (StaticBody, 500)))"
| "handle s (GetRecommendation env user_id) = get_recommendation s env (int user_id)"
| "handle s (GetMetrics now1) = (s, (MetricsBody (get_system_metrics s now1), 200))"
| "handle s GetApiInfo = (s, (StaticBody, 200))"

text \<open>The state after a sequence of requests, served one after the other.\<close>

fun serve :: "api_state \<Rightarrow> request list \<Rightarrow> api_state" where
  "serve s [] = s"
| "serve s (r # rs) = serve (fst (handle s r)) rs"

section \<open>Example inputs\<close>

definition example_draws :: rand_draws where
  "example_draws =
     \<lparr> d_price = 1 / 2, d_volume = 5, d_rsi = 1 / 2, d_macd = 1 / 4, d_bollinger = 1,
       d_trend = 0, d_portfolio = 0, d_frequency = 1, d_strategy = 2, d_action = 0 \<rparr>"

text \<open>A call at \<^verbatim>\<open>time.time()\<close> = \<open>t\<close> whose first clock reading is \<open>now\<close>.\<close>

definition example_env :: "rat \<Rightarrow> datetime \<Rightarrow> call_env" where
  "example_env t now =
     \<lparr> time_time = t, now_first = now, now_second = now + 1, draws = example_draws,
       ties = ties_up \<rparr>"

definition example_market :: "rat \<Rightarrow> string \<Rightarrow> market_conditions" where
  "example_market r t =
     \<lparr> current_price = 2000, change_24h = 0, change_percent_24h = 0, volume = 1000000,
       rsi = r, macd = 0, bollinger_position = ''middle'', trend = t, volatility = 2 \<rparr>"

definition example_profile :: "string \<Rightarrow> string \<Rightarrow> user_profile" where
  "example_profile risk experience =
     \<lparr> up_user_id = 1, risk_tolerance = risk, experience_level = experience,
       portfolio_size = ''small'', trading_frequency = ''daily'',
       preferred_strategy = ''swing'' \<rparr>"

text \<open>The user's cache entry is absent, or present and not younger than the timeout.\<close>

definition stale_or_absent :: "api_state \<Rightarrow> int \<Rightarrow> rat \<Rightarrow> bool" where
  "stale_or_absent s user_id current_time =
     (case map_of (recommendation_cache s) (cache_key_of user_id) of
        None \<Rightarrow> True
      | Some cached_rec \<Rightarrow> \<not> current_time - cache_time cached_rec < cache_timeout)"

text \<open>Two calls for user 1 on a fresh server, one second apart.\<close>

definition first_call :: "api_state \<times> (py_error + payload)" where
  "first_call = generate_recommendation (init_state 0) (example_env 1000 5000000) 1"

definition second_call :: "api_state \<times> (py_error + payload)" where
  "second_call = generate_recommendation (fst first_call) (example_env 1001 6000000) 1"

text \<open>No counter of the second state is below its value in the first.\<close>

definition counters_le :: "api_state \<Rightarrow> api_state \<Rightarrow> bool" where
  "counters_le s s' =
     (requests_count (system_metrics s) \<le> requests_count (system_metrics s') \<and>
      successful_recommendations (system_metrics s) \<le>
        successful_recommendations (system_metrics s') \<and>
      errors (system_metrics s) \<le> errors (system_metrics s'))"

text \<open>A recommendation as line 66 assembles it, and a server whose cache holds it for user 1.\<close>

definition example_recommendation :: recommendation where
  "example_recommendation =
     \<lparr> r_user_id = 1, r_action = ''HOLD'', r_confidence = 7 / 10,
       r_target_price = 2040, r_stop_loss = 1960,
       r_reasoning = HoldReasoning ''sideways'',
       r_market_data = example_market 50 ''sideways'',
       r_user_profile = example_profile ''moderate'' ''expert'',
       r_timestamp = 4000000, r_expires_at = 304000000,
       r_system_status = ''operational'', r_api_version = api_version \<rparr>"

definition warm_state :: api_state where
  "warm_state =
     \<lparr> recommendation_cache =
         [(cache_key_of 1, \<lparr> data = example_recommendation, cache_time = 900 \<rparr>)],
       system_metrics =
         \<lparr> requests_count = 1, successful_recommendations = 1, errors = 0,
           uptime_start = 0 \<rparr> \<rparr>"

definition example_counters :: "int \<Rightarrow> int \<Rightarrow> int \<Rightarrow> api_state" where
  "example_counters req succ err =
     \<lparr> recommendation_cache = [],
       system_metrics =
         \<lparr> requests_count = req, successful_recommendations = succ, errors = err,
           uptime_start = 0 \<rparr> \<rparr>"

section \<open>The unbound name and its consequences\<close>

lemma load_global_random: "load_global ''random'' = Inl (NameError ''random'')"
  by (simp add: load_global_def module_globals_def builtins_used_def)

lemma get_user_profile_raises: "get_user_profile d user_id = Inl (NameError ''random'')"
  by (simp add: get_user_profile_def load_global_random)

lemma generate_new_raises:
  "generate_new s env user_id cache_key current_time = (s, Inl (NameError ''random''))"
  by (simp add: generate_new_def get_user_profile_raises)

lemma try_body_cases:
  "try_body s env user_id =
     (case cache_hit (record_request s) (cache_key_of user_id) (time_time env) of
        Some cached \<Rightarrow> (record_request s, Inr (Recommendation cached))
      | None \<Rightarrow> (record_request s, Inl (NameError ''random'')))"
  by (simp add: try_body_def generate_new_raises Let_def split: option.split)

lemma cache_hit_record_request:
  "cache_hit (record_request s) k t = cache_hit s k t"
  by (simp add: cache_hit_def record_request_def)

lemma generate_recommendation_cases:
  "generate_recommendation s env user_id =
     (case cache_hit s (cache_key_of user_id) (time_time env) of
        Some cached \<Rightarrow> (record_request s, Inr (Recommendation cached))
      | None \<Rightarrow>
          (record_error (record_request s),
           Inr (ErrorPayload \<lparr> e_error = str_of_error (NameError ''random''),
                               e_user_id = user_id,
                               e_timestamp = now_first env,
                               e_system_status = ''error'' \<rparr>)))"
  by (simp add: generate_recommendation_def try_body_cases cache_hit_record_request
      split: option.split)

lemma record_counters:
  "requests_count (system_metrics (record_request s)) = requests_count (system_metrics s) + 1"
  "successful_recommendations (system_metrics (record_request s)) =
     successful_recommendations (system_metrics s)"
  "errors (system_metrics (record_request s)) = errors (system_metrics s)"
  "uptime_start (system_metrics (record_request s)) = uptime_start (system_metrics s)"
  "recommendation_cache (record_request s) = recommendation_cache s"
  "requests_count (system_metrics (record_error s)) = requests_count (system_metrics s)"
  "successful_recommendations (system_metrics (record_error s)) =
     successful_recommendations (system_metrics s)"
  "errors (system_metrics (record_error s)) = errors (system_metrics s) + 1"
  "uptime_start (system_metrics (record_error s)) = uptime_start (system_metrics s)"
  "recommendation_cache (record_error s) = recommendation_cache s"
  by (simp_all add: record_request_def record_error_def)

lemma stale_or_absent_miss:
  "stale_or_absent s user_id t \<Longrightarrow> cache_hit s (cache_key_of user_id) t = None"
  by (auto simp: stale_or_absent_def cache_hit_def split: option.splits)

lemma generate_recommendation_cache:
  "recommendation_cache (fst (generate_recommendation s env user_id)) = recommendation_cache s"
  by (simp add: generate_recommendation_cases record_counters split: option.split)

lemma get_recommendation_cases:
  "get_recommendation s env user_id =
     (fst (generate_recommendation s env user_id),
      (PayloadBody (case cache_hit s (cache_key_of user_id) (time_time env) of
                      Some cached \<Rightarrow> Recommendation cached
                    | None \<Rightarrow>
                        ErrorPayload \<lparr> e_error = str_of_error (NameError ''random''),
                                       e_user_id = user_id, e_timestamp = now_first env,
                                       e_system_status = ''error'' \<rparr>), 200))"
  by (simp add: get_recommendation_def generate_recommendation_cases split: option.split)

lemma round_nearest_close: "\<bar>of_int (round_nearest up y) - y\<bar> \<le> 1 / 2"
proof -
  define f where "f = \<lfloor>y\<rfloor>"
  define d where "d = y - of_int f"
  have lo: "0 \<le> d" and hi: "d < 1"
    unfolding d_def f_def by linarith+
  have y: "y = of_int f + d"
    by (simp add: d_def)
  have rn: "round_nearest up y =
      (if d < 1 / 2 then f else if 1 / 2 < d then f + 1 else if up y then f + 1 else f)"
    by (simp only: round_nearest_def Let_def d_def f_def)
  consider (below) "d < 1 / 2" | (above) "1 / 2 < d" | (tie) "d = 1 / 2"
    by linarith
  then show ?thesis
  proof cases
    case below
    with lo y rn show ?thesis by simp
  next
    case above
    with hi y rn show ?thesis by simp
  next
    case tie
    with y rn show ?thesis by simp
  qed
qed

lemma py_round_multiple: "\<exists>k::int. py_round up x n = of_int k / 10 ^ n"
  by (auto simp: py_round_def)

lemma py_round_close: "\<bar>py_round up x n - x\<bar> \<le> 1 / (2 * 10 ^ n)"
proof -
  have pos: "(0::rat) < 10 ^ n" by simp
  have "py_round up x n - x = (of_int (round_nearest up (x * 10 ^ n)) - x * 10 ^ n) / 10 ^ n"
    using pos by (simp add: py_round_def field_simps)
  then have "\<bar>py_round up x n - x\<bar> =
             \<bar>of_int (round_nearest up (x * 10 ^ n)) - x * 10 ^ n\<bar> / 10 ^ n"
    using pos by (simp add: abs_divide)
  also have "\<dots> \<le> (1 / 2) / 10 ^ n"
    using round_nearest_close [of up "x * 10 ^ n"] pos by (intro divide_right_mono) simp_all
  finally show ?thesis by simp
qed

lemma py_round_zero: "py_round up 0 n = 0"
  by (simp add: py_round_def round_nearest_def)

lemma one_below_bound: "1 < float_overflow_bound"
  by (simp add: float_overflow_bound_def)

text \<open>With the successes between zero and the requests the division of line 214 returns.\<close>

lemma success_quotient:
  assumes "0 \<le> successful_recommendations (system_metrics s)"
    and "successful_recommendations (system_metrics s) \<le> requests_count (system_metrics s)"
  shows "py_truediv (successful_recommendations (system_metrics s))
           (max (requests_count (system_metrics s)) 1) =
         Inr (of_int (successful_recommendations (system_metrics s)) /
              of_int (max (requests_count (system_metrics s)) 1))"
proof -
  let ?a = "successful_recommendations (system_metrics s)"
  let ?b = "max (requests_count (system_metrics s)) 1"
  have b: "0 < ?b" by simp
  have ab: "?a \<le> ?b" using assms(2) by simp
  have "0 \<le> (of_int ?a :: rat) / of_int ?b"
    using assms(1) b by simp
  moreover have "(of_int ?a :: rat) / of_int ?b \<le> 1"
    using ab b by (simp add: divide_le_eq_1)
  ultimately have "\<bar>(of_int ?a :: rat) / of_int ?b\<bar> < float_overflow_bound"
    using one_below_bound by linarith
  then show ?thesis
    using b by (simp add: py_truediv_def)
qed

lemma health_check_total:
  assumes "0 \<le> successful_recommendations (system_metrics s)"
    and "successful_recommendations (system_metrics s) \<le> requests_count (system_metrics s)"
  shows "health_check up s now1 now2 =
     Inr \<lparr> h_status = ''healthy'', h_timestamp = now2, h_version = api_version,
           h_uptime_seconds = py_int (of_int (now1 - uptime_start (system_metrics s)) / 1000000),
           h_metrics =
             \<lparr> total_requests = requests_count (system_metrics s),
               hm_successful_recommendations = successful_recommendations (system_metrics s),
               error_count = errors (system_metrics s),
               success_rate =
                 py_round up (of_int (successful_recommendations (system_metrics s)) /
                              of_int (max (requests_count (system_metrics s)) 1) * 100) 2,
               cache_size = length (recommendation_cache s) \<rparr> \<rparr>"
  by (simp add: health_check_def success_quotient [OF assms] Let_def)

text \<open>
  On the running server the cache stays empty and the success counter stays zero: every
  generation ends in the handler.
\<close>

lemma serve_cache_empty: "recommendation_cache (serve (init_state t) rs) = []"
proof -
  have step: "recommendation_cache (fst (handle s r)) = recommendation_cache s" for s r
    by (cases r) (simp_all add: get_recommendation_cases generate_recommendation_cache
        split: sum.split)
  have "recommendation_cache (serve s rs) = recommendation_cache s" for s
    by (induction rs arbitrary: s) (simp_all add: step)
  then show ?thesis by (simp add: init_state_def)
qed

lemma serve_successes_zero:
  "successful_recommendations (system_metrics (serve (init_state t) rs)) = 0"
proof -
  have step: "successful_recommendations (system_metrics (fst (handle s r))) =
              successful_recommendations (system_metrics s)" for s r
    by (cases r) (simp_all add: get_recommendation_cases generate_recommendation_cases
        record_counters split: option.split sum.split)
  have "successful_recommendations (system_metrics (serve s rs)) =
        successful_recommendations (system_metrics s)" for s
    by (induction rs arbitrary: s) (simp_all add: step)
  then show ?thesis by (simp add: init_state_def)
qed

text \<open>
  Claim C1. The module binds no global \<^verbatim>\<open>random\<close>, so reading it raises
  \<^verbatim>\<open>NameError\<close>; \<^verbatim>\<open>get_user_profile\<close> raises it for every user id. Whenever the
  user's cache entry is absent or stale, \<^verbatim>\<open>generate_recommendation\<close> returns the
  error payload with the message of that \<^verbatim>\<open>NameError\<close>, the user id, the timestamp and
  the status \<^verbatim>\<open>error\<close>; the cache is unchanged, \<^verbatim>\<open>requests_count\<close> and
  \<^verbatim>\<open>errors\<close> grow by one each and \<^verbatim>\<open>successful_recommendations\<close> keeps its value.
  On a server started by \<^verbatim>\<open>__init__\<close> no sequence of requests ever writes a cache
  entry or counts a success.
\<close>

theorem missing_random_import:
  assumes "stale_or_absent s user_id (time_time env)"
  shows "load_global ''random'' = Inl (NameError ''random'') \<and>
         get_user_profile (draws env) user_id = Inl (NameError ''random'') \<and>
         snd (generate_recommendation s env user_id) =
           Inr (ErrorPayload \<lparr> e_error = str_of_error (NameError ''random''),
                               e_user_id = user_id,
                               e_timestamp = now_first env,
                               e_system_status = ''error'' \<rparr>) \<and>
         recommendation_cache (fst (generate_recommendation s env user_id)) =
           recommendation_cache s \<and>
         requests_count (system_metrics (fst (generate_recommendation s env user_id))) =
           requests_count (system_metrics s) + 1 \<and>
         errors (system_metrics (fst (generate_recommendation s env user_id))) =
           errors (system_metrics s) + 1 \<and>
         successful_recommendations
             (system_metrics (fst (generate_recommendation s env user_id))) =
           successful_recommendations (system_metrics s) \<and>
         recommendation_cache (serve (init_state t) rs) = [] \<and>
         successful_recommendations (system_metrics (serve (init_state t) rs)) = 0"
  using stale_or_absent_miss [OF assms]
  by (simp add: load_global_random get_user_profile_raises generate_recommendation_cases
      record_counters serve_cache_empty serve_successes_zero)

theorem missing_random_import_witness:
  "stale_or_absent (init_state 0) 1 (time_time (example_env 1000 5)) \<and>
   snd (generate_recommendation (init_state 0) (example_env 1000 5) 1) =
     Inr (ErrorPayload \<lparr> e_error = str_of_error (NameError ''random''), e_user_id = 1,
                         e_timestamp = 5, e_system_status = ''error'' \<rparr>) \<and>
   recommendation_cache (fst (generate_recommendation (init_state 0) (example_env 1000 5) 1)) = [] \<and>
   requests_count
     (system_metrics (fst (generate_recommendation (init_state 0) (example_env 1000 5) 1))) = 1 \<and>
   errors
     (system_metrics (fst (generate_recommendation (init_state 0) (example_env 1000 5) 1))) = 1 \<and>
   successful_recommendations
     (system_metrics (fst (generate_recommendation (init_state 0) (example_env 1000 5) 1))) = 0"
proof -
  have h: "stale_or_absent (init_state 0) 1 (time_time (example_env 1000 5))"
    by (simp add: stale_or_absent_def init_state_def)
  show ?thesis
    using h missing_random_import [OF h]
    by (simp add: init_state_def example_env_def)
qed

section \<open>Confidence\<close>

text \<open>
  Claim C4. \<^verbatim>\<open>calculate_confidence\<close> starts from 0.5, adds 0.2 when the trend is not
  sideways, adds 0.1 when the RSI lies in [30, 70], adds 0.1 for an expert and subtracts
  0.1 for a beginner, and clamps the sum into [0.1, 0.95]; the result lies in [0.1, 0.95].
\<close>

theorem calculate_confidence_formula:
  "calculate_confidence p m =
     min (max (5 / 10
               + (if trend m \<noteq> ''sideways'' then 2 / 10 else 0)
               + (if 30 \<le> rsi m \<and> rsi m \<le> 70 then 1 / 10 else 0)
               + (if experience_level p = ''expert'' then 1 / 10 else 0)
               - (if experience_level p = ''beginner'' then 1 / 10 else 0))
            (1 / 10)) (95 / 100) \<and>
   1 / 10 \<le> calculate_confidence p m \<and> calculate_confidence p m \<le> 95 / 100"
  by (simp add: calculate_confidence_def Let_def)

section \<open>The decision rule and the profile\<close>

text \<open>
  The four deterministic branches of \<^verbatim>\<open>determine_action\<close> in their order; the last
  branch reads the unbound name.
\<close>

lemma determine_action_branches:
  "determine_action d p m =
     (if rsi m < 30 \<and> trend m = ''bullish'' then Inr ''BUY''
      else if rsi m > 70 \<and> trend m = ''bearish'' then Inr ''SELL''
      else if risk_tolerance p = ''conservative'' then Inr ''HOLD''
      else if trend m = ''sideways'' then Inr ''HOLD''
      else Inl (NameError ''random''))"
  by (simp add: determine_action_def load_global_random)

lemma determine_action_examples:
  "determine_action d (example_profile risk ex) (example_market 25 ''bullish'') = Inr ''BUY''"
  "determine_action d (example_profile risk ex) (example_market 80 ''bearish'') = Inr ''SELL''"
  "determine_action d (example_profile ''conservative'' ex) (example_market 50 ''bullish'') =
     Inr ''HOLD''"
  by (simp_all add: determine_action_branches example_market_def example_profile_def)

text \<open>
  Claim C3, at the input where the code departs from it: a moderate investor, RSI 50 and a
  bullish trend reach the last branch, which raises \<^verbatim>\<open>NameError\<close> and returns none
  of BUY, SELL and HOLD.
\<close>

theorem determine_action_random_branch_raises:
  "determine_action example_draws (example_profile ''moderate'' ''intermediate'')
     (example_market 50 ''bullish'') = Inl (NameError ''random'')"
  by (simp add: determine_action_branches example_market_def example_profile_def)

text \<open>
  Claim C9, at an input where the code departs from it: \<^verbatim>\<open>get_user_profile(7)\<close> returns
  no profile, it raises \<^verbatim>\<open>NameError\<close> (as it does for every user id, lemma
  \<open>get_user_profile_raises\<close>).
\<close>

theorem get_user_profile_never_returns:
  "get_user_profile example_draws 7 = Inl (NameError ''random'')"
  by (simp add: get_user_profile_raises)

section \<open>The cache\<close>

text \<open>The read path of the cache, for any state.\<close>

lemma cache_hit_iff:
  "cache_hit s k t = Some r \<longleftrightarrow>
     (\<exists>c. map_of (recommendation_cache s) k = Some c \<and> t - cache_time c < cache_timeout \<and>
          r = data c)"
  by (auto simp: cache_hit_def split: option.splits)

lemma generate_recommendation_fresh:
  assumes "map_of (recommendation_cache s) (cache_key_of user_id) = Some c"
    and "time_time env - cache_time c < cache_timeout"
  shows "generate_recommendation s env user_id =
           (record_request s, Inr (Recommendation (data c)))"
  using assms by (simp add: generate_recommendation_cases cache_hit_def)

lemma first_call_eval:
  "first_call = (record_error (record_request (init_state 0)),
     Inr (ErrorPayload \<lparr> e_error = str_of_error (NameError ''random''), e_user_id = 1,
                         e_timestamp = 5000000, e_system_status = ''error'' \<rparr>))"
  by (simp add: first_call_def generate_recommendation_cases cache_hit_def init_state_def
      example_env_def)

text \<open>
  Claim C2, at the input where the code departs from it: two calls for user 1 on a fresh
  server, one second apart and so within the timeout, return two different payloads, both
  error payloads, with different timestamps, and neither call writes a cache entry.
\<close>

theorem two_calls_within_ttl_differ:
  "1001 - 1000 < cache_timeout \<and>
   snd first_call =
     Inr (ErrorPayload \<lparr> e_error = str_of_error (NameError ''random''), e_user_id = 1,
                         e_timestamp = 5000000, e_system_status = ''error'' \<rparr>) \<and>
   snd second_call =
     Inr (ErrorPayload \<lparr> e_error = str_of_error (NameError ''random''), e_user_id = 1,
                         e_timestamp = 6000000, e_system_status = ''error'' \<rparr>) \<and>
   snd first_call \<noteq> snd second_call \<and>
   recommendation_cache (fst first_call) = [] \<and>
   recommendation_cache (fst second_call) = []"
  by (simp add: second_call_def first_call_eval generate_recommendation_cases cache_hit_def
      record_counters init_state_def example_env_def cache_timeout_def)

section \<open>The exception boundary\<close>

text \<open>
  Claim C5. \<^verbatim>\<open>generate_recommendation\<close> always returns a payload, never an exception;
  when the body of its \<^verbatim>\<open>try\<close> block raises \<open>e\<close>, the result is the error payload
  with the message of \<open>e\<close>, the user id, a timestamp and the status \<^verbatim>\<open>error\<close>, and the
  error counter is one above its value before the call.
\<close>

theorem exceptions_caught_at_boundary:
  "(\<exists>p. snd (generate_recommendation s env user_id) = Inr p) \<and>
   (\<forall>s' e. try_body s env user_id = (s', Inl e) \<longrightarrow>
      generate_recommendation s env user_id =
        (record_error s',
         Inr (ErrorPayload \<lparr> e_error = str_of_error e, e_user_id = user_id,
                             e_timestamp = now_first env, e_system_status = ''error'' \<rparr>)) \<and>
      errors (system_metrics (fst (generate_recommendation s env user_id))) =
        errors (system_metrics s) + 1)"
proof -
  have total: "\<exists>p. snd (generate_recommendation s env user_id) = Inr p"
    by (simp add: generate_recommendation_def split: prod.split sum.split)
  have caught: "generate_recommendation s env user_id =
        (record_error s',
         Inr (ErrorPayload \<lparr> e_error = str_of_error e, e_user_id = user_id,
                             e_timestamp = now_first env, e_system_status = ''error'' \<rparr>)) \<and>
      errors (system_metrics (fst (generate_recommendation s env user_id))) =
        errors (system_metrics s) + 1"
    if raised: "try_body s env user_id = (s', Inl e)" for s' e
  proof -
    have s': "s' = record_request s"
      using raised by (simp add: try_body_cases split: option.splits)
    show ?thesis
      using raised by (simp add: generate_recommendation_def s' record_counters)
  qed
  from total caught show ?thesis by blast
qed

theorem exceptions_caught_at_boundary_witness:
  "try_body (init_state 0) (example_env 1000 5) 1 =
     (record_request (init_state 0), Inl (NameError ''random'')) \<and>
   generate_recommendation (init_state 0) (example_env 1000 5) 1 =
     (record_error (record_request (init_state 0)),
      Inr (ErrorPayload \<lparr> e_error = str_of_error (NameError ''random''), e_user_id = 1,
                          e_timestamp = 5, e_system_status = ''error'' \<rparr>)) \<and>
   errors (system_metrics (fst (generate_recommendation (init_state 0) (example_env 1000 5) 1))) =
     errors (system_metrics (init_state 0)) + 1"
proof -
  have h: "try_body (init_state 0) (example_env 1000 5) 1 =
             (record_request (init_state 0), Inl (NameError ''random''))"
    by (simp add: try_body_cases cache_hit_def init_state_def record_request_def)
  from exceptions_caught_at_boundary [of "init_state 0" "example_env 1000 5" 1] h
  have "generate_recommendation (init_state 0) (example_env 1000 5) 1 =
          (record_error (record_request (init_state 0)),
           Inr (ErrorPayload \<lparr> e_error = str_of_error (NameError ''random''), e_user_id = 1,
                               e_timestamp = now_first (example_env 1000 5),
                               e_system_status = ''error'' \<rparr>)) \<and>
        errors (system_metrics (fst (generate_recommendation (init_state 0) (example_env 1000 5) 1))) =
          errors (system_metrics (init_state 0)) + 1"
    by blast
  with h show ?thesis
    by (simp add: example_env_def record_counters)
qed

section \<open>Price levels\<close>

lemma multiplier_values:
  "get_target_multiplier action =
     (if action = ''BUY'' then 5 / 100 else if action = ''SELL'' then - (3 / 100) else 2 / 100)"
  "get_stop_loss_multiplier action =
     (if action = ''BUY'' then 3 / 100 else if action = ''SELL'' then 5 / 100 else 2 / 100)"
  by (simp_all add: get_target_multiplier_def get_stop_loss_multiplier_def dict_get_def
      target_multipliers_def stop_loss_multipliers_def)

text \<open>
  Claim C7 as stated fails: at the price 2000.13 and the action BUY the target price is
  2100.14, not 2000.13 \<times> 1.05 = 2100.1365. The input is no tie, so the tie rule does not
  matter.
\<close>

theorem target_price_unrounded_counterexample:
  "target_price_of ties_up (200013 / 100) ''BUY'' = 210014 / 100 \<and>
   target_price_of ties_down (200013 / 100) ''BUY'' = 210014 / 100 \<and>
   (210014 / 100 :: rat) \<noteq> 200013 / 100 * (1 + 5 / 100)"
  by code_simp

text \<open>
  Claim C7, amended. For every action string the target price is the price times
  \<open>1 + m\<close> rounded to the nearest cent (a multiple of 0.01 at most 0.005 away from that
  product), with \<open>m\<close> = 0.05 for BUY, -0.03 for SELL and 0.02 for HOLD and for any other
  action; the stop-loss price is the price times \<open>1 - m'\<close> rounded to the nearest cent,
  with \<open>m'\<close> = 0.03 for BUY, 0.05 for SELL and 0.02 for HOLD and for any other action;
  the keys of both tables are BUY, SELL and HOLD. This holds whichever way a tie goes.
\<close>

theorem price_levels_nearest_cent:
  "(\<exists>k::int. target_price_of up price action = of_int k / 100) \<and>
   \<bar>target_price_of up price action -
      price * (1 + (if action = ''BUY'' then 5 / 100
                    else if action = ''SELL'' then - (3 / 100) else 2 / 100))\<bar> \<le> 5 / 1000 \<and>
   (\<exists>k::int. stop_loss_of up price action = of_int k / 100) \<and>
   \<bar>stop_loss_of up price action -
      price * (1 - (if action = ''BUY'' then 3 / 100
                    else if action = ''SELL'' then 5 / 100 else 2 / 100))\<bar> \<le> 5 / 1000 \<and>
   map fst target_multipliers = [''BUY'', ''SELL'', ''HOLD''] \<and>
   map fst stop_loss_multipliers = [''BUY'', ''SELL'', ''HOLD'']"
proof -
  let ?t = "price * (1 + get_target_multiplier action)"
  let ?l = "price * (1 - get_stop_loss_multiplier action)"
  have t1: "\<exists>k::int. target_price_of up price action = of_int k / 100"
    using py_round_multiple [of up ?t 2] by (simp add: target_price_of_def)
  have t2: "\<bar>target_price_of up price action - ?t\<bar> \<le> 5 / 1000"
    using py_round_close [of up ?t 2] by (simp add: target_price_of_def)
  have l1: "\<exists>k::int. stop_loss_of up price action = of_int k / 100"
    using py_round_multiple [of up ?l 2] by (simp add: stop_loss_of_def)
  have l2: "\<bar>stop_loss_of up price action - ?l\<bar> \<le> 5 / 1000"
    using py_round_close [of up ?l 2] by (simp add: stop_loss_of_def)
  have keys: "map fst target_multipliers = [''BUY'', ''SELL'', ''HOLD''] \<and>
              map fst stop_loss_multipliers = [''BUY'', ''SELL'', ''HOLD'']"
    by (simp add: target_multipliers_def stop_loss_multipliers_def)
  from t1 t2 l1 l2 keys show ?thesis
    unfolding multiplier_values by blast
qed

section \<open>The health snapshot\<close>

text \<open>
  Claim C8 as stated fails: with 3 requests and 1 success the success rate of the snapshot
  is 33.33, not 1 / max(3, 1) \<times> 100. The input is no tie, so the tie rule does not matter.
\<close>

theorem success_rate_unrounded_counterexample:
  "map_sum id (\<lambda>h. success_rate (h_metrics h))
     (health_check ties_up (example_counters 3 1 2) 0 0) = Inr (3333 / 100) \<and>
   map_sum id (\<lambda>h. success_rate (h_metrics h))
     (health_check ties_down (example_counters 3 1 2) 0 0) = Inr (3333 / 100) \<and>
   (3333 / 100 :: rat) \<noteq> 1 / max 3 1 * 100"
  by code_simp

text \<open>
  Claim C8, amended. For every counter state with the successes between zero and the
  requests, \<^verbatim>\<open>health_check\<close> returns a snapshot whose success rate is
  successes / max(requests, 1) \<times> 100 rounded to two decimals (a multiple of 0.01 at most
  0.005 away from it, whichever way a tie goes); the divisor is never zero and the
  division does not raise; when no request has been counted the success rate is 0.
\<close>

theorem health_success_rate_rounded:
  assumes "0 \<le> successful_recommendations (system_metrics s)"
    and "successful_recommendations (system_metrics s) \<le> requests_count (system_metrics s)"
  shows "\<exists>h. health_check up s now1 now2 = Inr h \<and>
           (\<exists>k::int. success_rate (h_metrics h) = of_int k / 100) \<and>
           \<bar>success_rate (h_metrics h) -
              of_int (successful_recommendations (system_metrics s)) /
              of_int (max (requests_count (system_metrics s)) 1) * 100\<bar> \<le> 5 / 1000 \<and>
           max (requests_count (system_metrics s)) 1 \<noteq> 0 \<and>
           (requests_count (system_metrics s) = 0 \<longrightarrow> success_rate (h_metrics h) = 0)"
proof -
  let ?q = "of_int (successful_recommendations (system_metrics s)) /
            of_int (max (requests_count (system_metrics s)) 1) * (100 :: rat)"
  have mult: "\<exists>k::int. py_round up ?q 2 = of_int k / 100"
    using py_round_multiple [of up ?q 2] by simp
  have close: "\<bar>py_round up ?q 2 - ?q\<bar> \<le> 5 / 1000"
    using py_round_close [of up ?q 2] by simp
  have zero: "py_round up ?q 2 = 0" if "requests_count (system_metrics s) = 0"
  proof -
    from that assms have "successful_recommendations (system_metrics s) = 0" by simp
    then show ?thesis by (simp add: py_round_zero)
  qed
  from mult close zero show ?thesis
    by (simp add: health_check_total [OF assms])
qed

theorem health_success_rate_rounded_witness:
  "0 \<le> successful_recommendations (system_metrics (init_state 0)) \<and>
   successful_recommendations (system_metrics (init_state 0)) \<le>
     requests_count (system_metrics (init_state 0)) \<and>
   requests_count (system_metrics (init_state 0)) = 0 \<and>
   (\<exists>h. health_check ties_up (init_state 0) 7 8 = Inr h \<and> success_rate (h_metrics h) = 0)"
proof -
  have a: "0 \<le> successful_recommendations (system_metrics (init_state 0))"
    and b: "successful_recommendations (system_metrics (init_state 0)) \<le>
            requests_count (system_metrics (init_state 0))"
    and c: "requests_count (system_metrics (init_state 0)) = 0"
    by (simp_all add: init_state_def)
  from health_success_rate_rounded [OF a b, of ties_up 7 8] c
  have "\<exists>h. health_check ties_up (init_state 0) 7 8 = Inr h \<and> success_rate (h_metrics h) = 0"
    by blast
  with a b c show ?thesis by blast
qed

section \<open>The recommendation route\<close>

text \<open>
  Claim C6 as stated fails: on a fresh server the generation for user 1 raises inside the
  \<^verbatim>\<open>try\<close> block, and the route answers with the four-field error object and
  status 200, not 500.
\<close>

theorem route_error_status_200:
  "snd (try_body (init_state 0) (example_env 1000 5) 1) = Inl (NameError ''random'') \<and>
   snd (get_recommendation (init_state 0) (example_env 1000 5) 1) =
     (PayloadBody (ErrorPayload \<lparr> e_error = str_of_error (NameError ''random''), e_user_id = 1,
                                  e_timestamp = 5, e_system_status = ''error'' \<rparr>), 200) \<and>
   snd (snd (get_recommendation (init_state 0) (example_env 1000 5) 1)) \<noteq> 500"
  by (simp add: try_body_cases get_recommendation_cases cache_hit_def init_state_def
      example_env_def record_request_def)

text \<open>
  Claim C6, amended. The route always answers with status 200, and its body and state are
  the payload and state that \<^verbatim>\<open>generate_recommendation\<close> returns: the cached
  Recommendation object when the user's entry is present and younger than the timeout, and,
  when the generation raised \<open>e\<close>, the error object with the message of \<open>e\<close>, the user
  id, the timestamp and the status \<^verbatim>\<open>error\<close>. The status 500 with the one-field body
  is never sent.
\<close>

theorem route_always_200:
  "\<exists>p. generate_recommendation s env user_id =
         (fst (generate_recommendation s env user_id), Inr p) \<and>
       get_recommendation s env user_id =
         (fst (generate_recommendation s env user_id), (PayloadBody p, 200)) \<and>
       (\<forall>c. map_of (recommendation_cache s) (cache_key_of user_id) = Some c \<and>
            time_time env - cache_time c < cache_timeout \<longrightarrow>
            p = Recommendation (data c)) \<and>
       (\<forall>e. snd (try_body s env user_id) = Inl e \<longrightarrow>
            p = ErrorPayload \<lparr> e_error = str_of_error e, e_user_id = user_id,
                               e_timestamp = now_first env, e_system_status = ''error'' \<rparr>)"
proof (cases "cache_hit s (cache_key_of user_id) (time_time env)")
  case None
  then show ?thesis
    by (auto simp: get_recommendation_cases generate_recommendation_cases try_body_cases
        record_counters cache_hit_def split: option.splits if_splits)
next
  case (Some r)
  then show ?thesis
    by (auto simp: get_recommendation_cases generate_recommendation_cases try_body_cases
        record_counters cache_hit_def split: option.splits if_splits)
qed

theorem route_always_200_witness:
  "map_of (recommendation_cache warm_state) (cache_key_of 1) =
     Some \<lparr> data = example_recommendation, cache_time = 900 \<rparr> \<and>
   time_time (example_env 1000 5) - 900 < cache_timeout \<and>
   get_recommendation warm_state (example_env 1000 5) 1 =
     (record_request warm_state, (PayloadBody (Recommendation example_recommendation), 200)) \<and>
   snd (try_body (init_state 0) (example_env 1000 5) 1) = Inl (NameError ''random'') \<and>
   snd (get_recommendation (init_state 0) (example_env 1000 5) 1) =
     (PayloadBody (ErrorPayload \<lparr> e_error = str_of_error (NameError ''random''), e_user_id = 1,
                                  e_timestamp = 5, e_system_status = ''error'' \<rparr>), 200)"
proof -
  have w1: "map_of (recommendation_cache warm_state) (cache_key_of 1) =
              Some \<lparr> data = example_recommendation, cache_time = 900 \<rparr>"
    by (simp add: warm_state_def)
  have w2: "time_time (example_env 1000 5) - 900 < cache_timeout"
    by (simp add: example_env_def cache_timeout_def)
  have w3: "fst (generate_recommendation warm_state (example_env 1000 5) 1) =
              record_request warm_state"
    using w1 w2 by (simp add: generate_recommendation_cases cache_hit_def)
  from route_always_200 [of warm_state "example_env 1000 5" 1] w1 w2
  have warm: "get_recommendation warm_state (example_env 1000 5) 1 =
     (fst (generate_recommendation warm_state (example_env 1000 5) 1),
      (PayloadBody (Recommendation example_recommendation), 200))"
    by auto
  have h: "snd (try_body (init_state 0) (example_env 1000 5) 1) = Inl (NameError ''random'')"
    by (simp add: try_body_cases cache_hit_def init_state_def record_request_def)
  from route_always_200 [of "init_state 0" "example_env 1000 5" 1] h
  have cold: "snd (get_recommendation (init_state 0) (example_env 1000 5) 1) =
     (PayloadBody (ErrorPayload \<lparr> e_error = str_of_error (NameError ''random''), e_user_id = 1,
                                  e_timestamp = now_first (example_env 1000 5),
                                  e_system_status = ''error'' \<rparr>), 200)"
    by auto
  from w1 w2 w3 warm h cold show ?thesis
    by (simp add: example_env_def)
qed

section \<open>The counters\<close>

lemma counters_le_refl: "counters_le s s"
  by (simp add: counters_le_def)

lemma counters_le_trans: "counters_le a b \<Longrightarrow> counters_le b c \<Longrightarrow> counters_le a c"
  by (auto simp: counters_le_def)

lemma generate_recommendation_counters:
  "counters_le s (fst (generate_recommendation s env user_id))"
  by (simp add: counters_le_def generate_recommendation_cases record_counters
      split: option.split)

lemma generate_recommendation_requests:
  "requests_count (system_metrics (fst (generate_recommendation s env user_id))) =
     requests_count (system_metrics s) + 1"
  by (simp add: generate_recommendation_cases record_counters split: option.split)

lemma handle_counters: "counters_le s (fst (handle s r))"
proof (cases r)
  case (GetRecommendation env u)
  then show ?thesis
    by (simp add: get_recommendation_cases generate_recommendation_counters)
next
  case (GetHealth up a b)
  then show ?thesis by (simp add: counters_le_refl split: sum.split)
qed (simp_all add: counters_le_refl)

lemma serve_counters: "counters_le s (serve s rs)"
proof (induction rs arbitrary: s)
  case Nil
  show ?case by (simp add: counters_le_refl)
next
  case (Cons r rs)
  have "counters_le s (fst (handle s r))" by (rule handle_counters)
  moreover have "counters_le (fst (handle s r)) (serve (fst (handle s r)) rs)"
    by (rule Cons.IH)
  ultimately show ?case
    using counters_le_trans by simp
qed

text \<open>
  Claim C10. Every call of \<^verbatim>\<open>generate_recommendation\<close> raises
  \<^verbatim>\<open>requests_count\<close> by exactly one and lowers no counter; no request to the server
  lowers a counter, and after any sequence of requests each of the three counters is at
  least what it was before.
\<close>

theorem counters_never_decrease:
  "requests_count (system_metrics (fst (generate_recommendation s env user_id))) =
     requests_count (system_metrics s) + 1 \<and>
   counters_le s (fst (generate_recommendation s env user_id)) \<and>
   counters_le s (fst (handle s r)) \<and>
   counters_le s (serve s rs) \<and>
   requests_count (system_metrics s) \<le> requests_count (system_metrics (serve s rs)) \<and>
   successful_recommendations (system_metrics s) \<le>
     successful_recommendations (system_metrics (serve s rs)) \<and>
   errors (system_metrics s) \<le> errors (system_metrics (serve s rs))"
proof -
  have "counters_le s (serve s rs)" by (rule serve_counters)
  then have "requests_count (system_metrics s) \<le> requests_count (system_metrics (serve s rs)) \<and>
     successful_recommendations (system_metrics s) \<le>
       successful_recommendations (system_metrics (serve s rs)) \<and>
     errors (system_metrics s) \<le> errors (system_metrics (serve s rs))"
    by (simp add: counters_le_def)
  then show ?thesis
    by (simp add: generate_recommendation_requests generate_recommendation_counters
        handle_counters serve_counters)
qed

end
